theory Spec2Isabelle
  imports Complex_Main
begin

section \<open>The transition layer editor (transition-content.tsx)\<close>

text \<open>
  The component \<open>TransitionContent\<close> keeps one piece of local state, the text buffer
  \<open>intermediateValue\<close>, and talks to its owner through two calls: \<open>onEditLayer\<close> (the
  commit sink) and \<open>deleteTransitionLayer\<close>. The handlers are modelled as functions from
  the state at the time of the event to the state after it; the upstream calls a handler
  makes are appended, in order, to a log kept beside the buffer.

  \<open>parseTransition\<close>, \<open>toValue\<close> and \<open>extractTransitionProperties\<close> are imported from
  other packages. They are parameters of the model, so every theorem below holds
  whatever these three pure functions compute.
\<close>

subsection \<open>Values\<close>

text \<open>
  The items of a tuple are \<open>UnitValue | KeywordValue\<close> (line 108). The number of a unit
  value is carried around and never computed with.
\<close>

datatype StyleValue = UnitValue real string | KeywordValue string

datatype TupleValue = Tuple "StyleValue list"

text \<open>
  \<open>parseTransition\<close> returns \<open>{type: "layers", value}\<close> or \<open>{type: "invalid", value}\<close>;
  the code looks at the tag only (lines 93 and 116).
\<close>

datatype ParsedTransition = LayersValue "TupleValue list" | InvalidValue string

record StyleUpdateOptions =
  isEphemeral :: bool

text \<open>
  The state type of \<open>useState\<close> (lines 70-72) is
  \<open>IntermediateStyleValue | InvalidValue | undefined\<close>: a tagged text, or nothing.
\<close>

datatype BufferValue = Intermediate string | Invalid string

fun valueOf :: "BufferValue \<Rightarrow> string" where
  "valueOf (Intermediate v) = v"
| "valueOf (Invalid v) = v"

subsection \<open>Objects of type ExtractedTransitionProperties\<close>

text \<open>
  A JavaScript object with the optional keys \<open>property\<close>, \<open>duration\<close>, \<open>delay\<close> and
  \<open>timing\<close>: its own keys in insertion order, each with a value that may be
  \<open>null\<close> or \<open>undefined\<close> (\<open>None\<close>; the test \<open>item != null\<close> of line 112 does not tell
  the two apart). A key that is missing is different from a key holding \<open>undefined\<close>:
  only the second overrides when the object is spread.
\<close>

datatype FieldKey = Property | Duration | Delay | Timing

type_synonym ExtractedTransitionProperties = "(FieldKey \<times> StyleValue option) list"

text \<open>Reading \<open>obj.k\<close> (and destructuring): a missing key reads as \<open>undefined\<close>.\<close>

definition getField :: "ExtractedTransitionProperties \<Rightarrow> FieldKey \<Rightarrow> StyleValue option" where
  "getField obj k = (case map_of obj k of None \<Rightarrow> None | Some v \<Rightarrow> v)"

text \<open>
  Defining a property: an existing key keeps its place and takes the new value, a new
  key goes last.
\<close>

fun setProperty ::
  "ExtractedTransitionProperties \<Rightarrow> FieldKey \<times> StyleValue option \<Rightarrow> ExtractedTransitionProperties"
where
  "setProperty [] (k, v) = [(k, v)]"
| "setProperty ((k', v') # obj) (k, v) =
     (if k' = k then (k, v) # obj else (k', v') # setProperty obj (k, v))"

text \<open>\<open>{...target, ...source}\<close>: the properties of \<open>source\<close> are defined in its order.\<close>

definition objectSpread ::
  "ExtractedTransitionProperties \<Rightarrow> ExtractedTransitionProperties \<Rightarrow> ExtractedTransitionProperties"
where
  "objectSpread target source = foldl setProperty target source"

definition objectValues :: "ExtractedTransitionProperties \<Rightarrow> StyleValue option list" where
  "objectValues obj = map snd obj"

text \<open>\<open>.filter((item) => item != null)\<close>, with the narrowing of its type guard.\<close>

definition filterNonNull :: "StyleValue option list \<Rightarrow> StyleValue list" where
  "filterNonNull items = map the (filter (\<lambda>item. item \<noteq> None) items)"

subsection \<open>Props, collaborators and state\<close>

text \<open>
  Of the props, \<open>tooltip\<close>, \<open>currentStyle\<close> and \<open>createBatchUpdate\<close> are handed on
  untouched and are left out.
\<close>

record TransitionContentProps =
  index :: nat
  layer :: TupleValue
  propertyValue :: string

record Collaborators =
  parseTransition :: "string \<Rightarrow> ParsedTransition"
  toValue :: "TupleValue \<Rightarrow> string"
  extractTransitionProperties :: "TupleValue \<Rightarrow> ExtractedTransitionProperties"

datatype UpstreamCall =
    OnEditLayer nat "TupleValue list" StyleUpdateOptions
  | DeleteTransitionLayer nat StyleUpdateOptions

record EditorState =
  intermediateValue :: "BufferValue option"
  calls :: "UpstreamCall list"

text \<open>Lines 70-72: the buffer starts as the text handed in by the owner.\<close>

definition initialState :: "TransitionContentProps \<Rightarrow> EditorState" where
  "initialState p = \<lparr>intermediateValue = Some (Intermediate (propertyValue p)), calls = []\<rparr>"

subsection \<open>Handlers\<close>

text \<open>Lines 80-85.\<close>

definition handleChange :: "string \<Rightarrow> EditorState \<Rightarrow> EditorState" where
  "handleChange v s = s\<lparr>intermediateValue := Some (Intermediate v)\<rparr>"

text \<open>Lines 87-102.\<close>

definition handleComplete ::
  "Collaborators \<Rightarrow> TransitionContentProps \<Rightarrow> StyleUpdateOptions \<Rightarrow> EditorState \<Rightarrow> EditorState"
where
  "handleComplete env p options s =
     (case intermediateValue s of
        None \<Rightarrow> s
      | Some iv \<Rightarrow>
          (case parseTransition env (valueOf iv) of
             InvalidValue _ \<Rightarrow> s\<lparr>intermediateValue := Some (Invalid (valueOf iv))\<rparr>
           | LayersValue layers \<Rightarrow> s\<lparr>calls := calls s @ [OnEditLayer (index p) layers options]\<rparr>))"

text \<open>
  Lines 108-110: the object \<open>{...{property, duration, delay, timing}, ...params}\<close>, where
  the four variables were destructured from the extracted fields (line 74).
\<close>

definition mergedFields ::
  "ExtractedTransitionProperties \<Rightarrow> ExtractedTransitionProperties \<Rightarrow> ExtractedTransitionProperties"
where
  "mergedFields extracted params =
     objectSpread
       (objectSpread []
          [(Property, getField extracted Property), (Duration, getField extracted Duration),
           (Delay, getField extracted Delay), (Timing, getField extracted Timing)])
       params"

text \<open>Lines 108-114: the tuple that is serialized.\<close>

definition newLayer ::
  "ExtractedTransitionProperties \<Rightarrow> ExtractedTransitionProperties \<Rightarrow> TupleValue"
where
  "newLayer extracted params = Tuple (filterNonNull (objectValues (mergedFields extracted params)))"

text \<open>
  Lines 104-129. The second argument is optional: \<open>None\<close> is a call that gives no
  options, for which the default of line 106 stands in.
\<close>

definition handlePropertyUpdate ::
  "Collaborators \<Rightarrow> TransitionContentProps \<Rightarrow> ExtractedTransitionProperties \<Rightarrow>
   StyleUpdateOptions option \<Rightarrow> EditorState \<Rightarrow> EditorState"
where
  "handlePropertyUpdate env p params options s =
     (let opts = (case options of None \<Rightarrow> \<lparr>isEphemeral = False\<rparr> | Some given \<Rightarrow> given);
          serialized = toValue env (newLayer (extractTransitionProperties env (layer p)) params)
      in case parseTransition env serialized of
           InvalidValue _ \<Rightarrow> s\<lparr>intermediateValue := Some (Invalid serialized)\<rparr>
         | LayersValue layers \<Rightarrow>
             s\<lparr>intermediateValue := Some (Intermediate serialized),
               calls := calls s @ [OnEditLayer (index p) layers opts]\<rparr>)"

subsection \<open>The callbacks wired in the markup\<close>

text \<open>Lines 172-174 and 207: \<open>deleteProperty\<close> of the duration and delay inputs.\<close>

definition durationDeleteProperty ::
  "Collaborators \<Rightarrow> TransitionContentProps \<Rightarrow> EditorState \<Rightarrow> EditorState"
where
  "durationDeleteProperty env p s =
     handlePropertyUpdate env p
       [(Duration, getField (extractTransitionProperties env (layer p)) Duration)] None s"

definition delayDeleteProperty ::
  "Collaborators \<Rightarrow> TransitionContentProps \<Rightarrow> EditorState \<Rightarrow> EditorState"
where
  "delayDeleteProperty env p s =
     handlePropertyUpdate env p
       [(Delay, getField (extractTransitionProperties env (layer p)) Delay)] None s"

text \<open>
  Lines 238-244: what the text area shows, and its colour (\<open>None\<close> is \<open>undefined\<close>,
  the normal style).
\<close>

definition textAreaValue :: "EditorState \<Rightarrow> string" where
  "textAreaValue s = (case intermediateValue s of None \<Rightarrow> [] | Some iv \<Rightarrow> valueOf iv)"

definition textAreaColor :: "EditorState \<Rightarrow> string option" where
  "textAreaColor s =
     (case intermediateValue s of Some (Invalid _) \<Rightarrow> Some ''error'' | _ \<Rightarrow> None)"

text \<open>Line 245.\<close>

definition onBlur :: "Collaborators \<Rightarrow> TransitionContentProps \<Rightarrow> EditorState \<Rightarrow> EditorState" where
  "onBlur env p s = handleComplete env p \<lparr>isEphemeral = True\<rparr> s"

text \<open>
  Lines 246-268. The event carries its key and the two flags the handler sets. The
  handler reads \<open>intermediateValue\<close> as it was when the event arrived (\<open>s\<close>), also in
  the Escape branch.
\<close>

record KeyboardEvent =
  key :: string
  propagationStopped :: bool
  defaultPrevented :: bool

definition onKeyDown ::
  "Collaborators \<Rightarrow> TransitionContentProps \<Rightarrow> KeyboardEvent \<Rightarrow> EditorState \<Rightarrow>
   KeyboardEvent \<times> EditorState"
where
  "onKeyDown env p event s =
     (let e1 = event\<lparr>propagationStopped := True\<rparr>;
          (e2, s2) =
            (if key event = ''Enter''
             then (e1\<lparr>defaultPrevented := True\<rparr>, handleComplete env p \<lparr>isEphemeral = False\<rparr> s)
             else (e1, s))
      in if key event = ''Escape''
         then (if intermediateValue s = None then (e2, s2)
               else (e2\<lparr>defaultPrevented := True\<rparr>,
                     s2\<lparr>intermediateValue := None,
                        calls := calls s2 @ [DeleteTransitionLayer (index p) \<lparr>isEphemeral = True\<rparr>]\<rparr>))
         else (e2, s2))"


subsection \<open>The editor as a state machine\<close>

text \<open>
  The events the markup dispatches: typing in the text area (line 244), blur (line 245),
  a key (lines 246-268), and a field edit by one of the four sub-editors (lines 144,
  172-180, 207-213, 218), which all end in \<open>handlePropertyUpdate\<close>. The props are those of
  the render in which the event arrives, so each event comes with them.
\<close>

datatype EditorEvent =
    TextEdit string
  | Blur
  | KeyDown KeyboardEvent
  | FieldEdit ExtractedTransitionProperties "StyleUpdateOptions option"

fun step :: "Collaborators \<Rightarrow> TransitionContentProps \<times> EditorEvent \<Rightarrow> EditorState \<Rightarrow> EditorState" where
  "step env (p, TextEdit v) s = handleChange v s"
| "step env (p, Blur) s = onBlur env p s"
| "step env (p, KeyDown event) s = snd (onKeyDown env p event s)"
| "step env (p, FieldEdit params options) s = handlePropertyUpdate env p params options s"

definition run ::
  "Collaborators \<Rightarrow> (TransitionContentProps \<times> EditorEvent) list \<Rightarrow> EditorState \<Rightarrow> EditorState"
where
  "run env events s = fold (step env) events s"

text \<open>A logged call is fine for the deletion rule when it is no deletion, or an ephemeral one.\<close>

fun ephemeralIfDeletion :: "UpstreamCall \<Rightarrow> bool" where
  "ephemeralIfDeletion (DeleteTransitionLayer i options) = isEphemeral options"
| "ephemeralIfDeletion (OnEditLayer i layers options) = True"

fun isDeletion :: "UpstreamCall \<Rightarrow> bool" where
  "isDeletion (DeleteTransitionLayer i options) = True"
| "isDeletion (OnEditLayer i layers options) = False"

subsection \<open>The field merge as the specification words it\<close>

text \<open>
  The specification's reading of the merge, to compare with \<open>newLayer\<close>: a provided
  field replaces the current one, a field not provided keeps its current value, and a
  field that is still absent takes its configured default, so that all four fields are
  serialized. The defaults (\<open>defaultTransitionProperty\<close> and its three siblings of
  transition-utils) are a parameter.
\<close>

definition spec_newLayer ::
  "(FieldKey \<Rightarrow> StyleValue) \<Rightarrow> ExtractedTransitionProperties \<Rightarrow> ExtractedTransitionProperties \<Rightarrow>
   TupleValue"
where
  "spec_newLayer defaults extracted params =
     Tuple (map (\<lambda>k. case getField params k of
                        Some v \<Rightarrow> v
                      | None \<Rightarrow> (case getField extracted k of Some v \<Rightarrow> v | None \<Rightarrow> defaults k))
                [Property, Duration, Delay, Timing])"

subsection \<open>Example collaborators and inputs\<close>

text \<open>
  Concrete stand-ins for the imported functions, used to instantiate the theorems: a
  serializer that joins the items with spaces, a parser that accepts two texts, and an
  extractor that finds a property and a duration, as in the example of the
  specification (section 8, property 3).
\<close>

fun exampleItemText :: "StyleValue \<Rightarrow> string" where
  "exampleItemText (KeywordValue k) = k"
| "exampleItemText (UnitValue n u) =
     (if n = 200 then ''200'' else if n = 50 then ''50'' else ''0'') @ u"

fun exampleJoin :: "string list \<Rightarrow> string" where
  "exampleJoin [] = []"
| "exampleJoin [x] = x"
| "exampleJoin (x # y # rest) = x @ '' '' @ exampleJoin (y # rest)"

definition exampleToValue :: "TupleValue \<Rightarrow> string" where
  "exampleToValue t = (case t of Tuple items \<Rightarrow> exampleJoin (map exampleItemText items))"

definition exampleParse :: "string \<Rightarrow> ParsedTransition" where
  "exampleParse t =
     (if t = ''opacity 200ms''
      then LayersValue [Tuple [KeywordValue ''opacity'', UnitValue 200 ''ms'']]
      else if t = ''opacity 200ms 50ms''
      then LayersValue [Tuple [KeywordValue ''opacity'', UnitValue 200 ''ms'', UnitValue 50 ''ms'']]
      else InvalidValue t)"

definition exampleExtracted :: ExtractedTransitionProperties where
  "exampleExtracted =
     [(Property, Some (KeywordValue ''opacity'')), (Duration, Some (UnitValue 200 ''ms''))]"

definition exampleEnv :: Collaborators where
  "exampleEnv =
     \<lparr>parseTransition = exampleParse, toValue = exampleToValue,
      extractTransitionProperties = (\<lambda>t. exampleExtracted)\<rparr>"

definition exampleProps :: TransitionContentProps where
  "exampleProps =
     \<lparr>index = 2, layer = Tuple [KeywordValue ''opacity'', UnitValue 200 ''ms''],
      propertyValue = ''opacity 200ms''\<rparr>"

definition exampleDefaults :: "FieldKey \<Rightarrow> StyleValue" where
  "exampleDefaults k =
     (case k of Property \<Rightarrow> KeywordValue ''opacity'' | Duration \<Rightarrow> UnitValue 0 ''ms''
      | Delay \<Rightarrow> UnitValue 0 ''ms'' | Timing \<Rightarrow> KeywordValue ''ease'')"

definition escapeKey :: KeyboardEvent where
  "escapeKey = \<lparr>key = ''Escape'', propagationStopped = False, defaultPrevented = False\<rparr>"

definition enterKey :: KeyboardEvent where
  "enterKey = \<lparr>key = ''Enter'', propagationStopped = False, defaultPrevented = False\<rparr>"

section \<open>Properties\<close>

subsection \<open>Object spread\<close>

lemma map_fst_setProperty:
  "k \<in> fst ` set obj \<Longrightarrow> map fst (setProperty obj (k, v)) = map fst obj"
  by (induction obj) force+

lemma map_of_setProperty: "map_of (setProperty obj (k, v)) = (map_of obj)(k \<mapsto> v)"
  by (induction obj) (auto simp: fun_eq_iff)

lemma FieldKey_in_all: "k \<in> set [Property, Duration, Delay, Timing]"
  by (cases k) simp_all

lemma map_fst_objectSpread:
  "map fst obj = [Property, Duration, Delay, Timing] \<Longrightarrow>
   map fst (objectSpread obj source) = [Property, Duration, Delay, Timing]"
proof (induction source arbitrary: obj)
  case Nil
  then show ?case by (simp add: objectSpread_def)
next
  case (Cons kv source)
  obtain k v where kv: "kv = (k, v)" by (cases kv)
  have "k \<in> set (map fst obj)" using Cons.prems FieldKey_in_all by simp
  then have "k \<in> fst ` set obj" by simp
  then have "map fst (setProperty obj kv) = [Property, Duration, Delay, Timing]"
    using Cons.prems kv by (simp add: map_fst_setProperty)
  then have "map fst (objectSpread (setProperty obj kv) source) = [Property, Duration, Delay, Timing]"
    by (rule Cons.IH)
  then show ?case by (simp add: objectSpread_def)
qed

lemma map_of_objectSpread:
  "map_of (objectSpread obj source) = map_of obj ++ map_of (rev source)"
proof (induction source arbitrary: obj)
  case Nil
  then show ?case by (simp add: objectSpread_def)
next
  case (Cons kv source)
  obtain k v where kv: "kv = (k, v)" by (cases kv)
  have "map_of (objectSpread (setProperty obj kv) source) =
        map_of (setProperty obj kv) ++ map_of (rev source)"
    by (rule Cons.IH)
  then show ?case
    by (simp add: objectSpread_def kv map_of_setProperty map_add_def fun_eq_iff
        split: option.splits)
qed

lemma literal_spread:
  "objectSpread [] [(Property, a), (Duration, b), (Delay, c), (Timing, d)] =
   [(Property, a), (Duration, b), (Delay, c), (Timing, d)]"
  by (simp add: objectSpread_def)

lemma mergedFields_keys:
  "map fst (mergedFields extracted params) = [Property, Duration, Delay, Timing]"
  unfolding mergedFields_def literal_spread by (rule map_fst_objectSpread) simp

lemma getField_literal:
  "getField [(Property, getField e Property), (Duration, getField e Duration),
             (Delay, getField e Delay), (Timing, getField e Timing)] k = getField e k"
  by (cases k) (simp_all add: getField_def)

lemma getField_mergedFields:
  "getField (mergedFields extracted params) k =
     (case map_of (rev params) k of Some v \<Rightarrow> v | None \<Rightarrow> getField extracted k)"
proof -
  let ?lit = "[(Property, getField extracted Property), (Duration, getField extracted Duration),
             (Delay, getField extracted Delay), (Timing, getField extracted Timing)]"
  have "getField (objectSpread ?lit params) k =
      (case map_of (rev params) k of Some v \<Rightarrow> v | None \<Rightarrow> getField ?lit k)"
    by (simp add: getField_def map_of_objectSpread map_add_def split: option.splits)
  then show ?thesis
    unfolding mergedFields_def literal_spread getField_literal .
qed

lemma objectValues_by_keys:
  "distinct (map fst obj) \<Longrightarrow> objectValues obj = map (getField obj) (map fst obj)"
  by (auto simp: objectValues_def getField_def)

lemma objectValues_mergedFields:
  "objectValues (mergedFields extracted params) =
   map (getField (mergedFields extracted params)) [Property, Duration, Delay, Timing]"
proof -
  have "distinct (map fst (mergedFields extracted params))"
    by (simp add: mergedFields_keys)
  then have "objectValues (mergedFields extracted params) =
      map (getField (mergedFields extracted params)) (map fst (mergedFields extracted params))"
    by (rule objectValues_by_keys)
  then show ?thesis by (simp only: mergedFields_keys)
qed

lemma filterNonNull_map:
  "filterNonNull (map f ks) = concat (map (\<lambda>k. case f k of None \<Rightarrow> [] | Some v \<Rightarrow> [v]) ks)"
  by (induction ks) (auto simp: filterNonNull_def)

lemma handlePropertyUpdate_text:
  "textAreaValue (handlePropertyUpdate env p params options s) =
   toValue env (newLayer (extractTransitionProperties env (layer p)) params)"
  by (simp add: handlePropertyUpdate_def textAreaValue_def Let_def split: ParsedTransition.splits)

lemmas example_defs =
  exampleEnv_def exampleProps_def exampleParse_def exampleToValue_def exampleExtracted_def
  initialState_def escapeKey_def enterKey_def

lemmas merge_defs =
  newLayer_def mergedFields_def objectSpread_def objectValues_def filterNonNull_def getField_def

subsection \<open>Field edits: what is serialized\<close>

text \<open>
  The specification's example (section 8, property 3): the current fields are a property
  and a duration, and the edit provides a delay. The code serializes three items; the
  specification's reading has four, the last being the default timing. No default is
  looked up anywhere in \<open>handlePropertyUpdate\<close>: the defaults of transition-utils are
  used for display only (lines 143, 170, 205, 217).
\<close>

theorem handlePropertyUpdate_defaults_counterexample:
  "newLayer exampleExtracted [(Delay, Some (UnitValue 50 ''ms''))] =
     Tuple [KeywordValue ''opacity'', UnitValue 200 ''ms'', UnitValue 50 ''ms''] \<and>
   spec_newLayer exampleDefaults exampleExtracted [(Delay, Some (UnitValue 50 ''ms''))] =
     Tuple [KeywordValue ''opacity'', UnitValue 200 ''ms'', UnitValue 50 ''ms'', KeywordValue ''ease''] \<and>
   newLayer exampleExtracted [(Delay, Some (UnitValue 50 ''ms''))] \<noteq>
     spec_newLayer exampleDefaults exampleExtracted [(Delay, Some (UnitValue 50 ''ms''))] \<and>
   textAreaValue (handlePropertyUpdate exampleEnv exampleProps [(Delay, Some (UnitValue 50 ''ms''))]
       None (initialState exampleProps)) = ''opacity 200ms 50ms''"
  by (simp add: newLayer_def spec_newLayer_def mergedFields_def objectSpread_def objectValues_def
      filterNonNull_def getField_def exampleExtracted_def exampleDefaults_def
      handlePropertyUpdate_def exampleEnv_def exampleProps_def exampleToValue_def
      exampleParse_def textAreaValue_def initialState_def)

text \<open>
  C1 (amended). Every field edit serializes the merge of \<open>params\<close> over the extracted
  fields: for each of property, duration, delay and timing, in this order, the value is
  the one \<open>params\<close> provides when it has the key (also when that value is null), and the
  current one otherwise; a field whose merged value is absent is left out of the tuple,
  and no default is put in its place. The text of the buffer after the edit is the
  serialization of that tuple.
\<close>

theorem handlePropertyUpdate_merges_and_omits_absent:
  "textAreaValue (handlePropertyUpdate env p params options s) =
     toValue env
       (Tuple (concat (map
          (\<lambda>k. case (case map_of (rev params) k of
                        Some provided \<Rightarrow> provided
                      | None \<Rightarrow> getField (extractTransitionProperties env (layer p)) k) of
                  None \<Rightarrow> []
                | Some v \<Rightarrow> [v])
          [Property, Duration, Delay, Timing])))"
  unfolding handlePropertyUpdate_text newLayer_def objectValues_mergedFields filterNonNull_map
    getField_mergedFields ..

theorem handlePropertyUpdate_merges_and_omits_absent_witness:
  "textAreaValue
     (handlePropertyUpdate exampleEnv exampleProps [(Delay, Some (UnitValue 50 ''ms''))] None
        (initialState exampleProps)) = ''opacity 200ms 50ms''"
  using handlePropertyUpdate_merges_and_omits_absent
    [of exampleEnv exampleProps "[(Delay, Some (UnitValue 50 ''ms''))]" None
        "initialState exampleProps"]
  by (simp add: exampleEnv_def exampleToValue_def exampleExtracted_def getField_def)

text \<open>
  C7. The keys of the merged object are property, duration, delay, timing, in this
  order, whatever keys \<open>params\<close> has and in whatever order; the serialized tuple lists the
  values of these keys in that order, skipping exactly the fields that are null.
\<close>

theorem newLayer_field_order:
  "map fst (mergedFields extracted params) = [Property, Duration, Delay, Timing] \<and>
   newLayer extracted params =
     Tuple (concat (map
       (\<lambda>k. case getField (mergedFields extracted params) k of None \<Rightarrow> [] | Some v \<Rightarrow> [v])
       [Property, Duration, Delay, Timing]))"
  by (simp only: mergedFields_keys newLayer_def objectValues_mergedFields filterNonNull_map simp_thms)

theorem newLayer_field_order_witness:
  "map fst (mergedFields exampleExtracted [(Timing, Some (KeywordValue ''ease'')), (Property, None)]) =
     [Property, Duration, Delay, Timing] \<and>
   newLayer exampleExtracted [(Timing, Some (KeywordValue ''ease'')), (Property, None)] =
     Tuple [UnitValue 200 ''ms'', KeywordValue ''ease'']"
proof -
  have "getField (mergedFields exampleExtracted [(Timing, Some (KeywordValue ''ease'')), (Property, None)]) k =
      (case k of Property \<Rightarrow> None | Duration \<Rightarrow> Some (UnitValue 200 ''ms'') | Delay \<Rightarrow> None
       | Timing \<Rightarrow> Some (KeywordValue ''ease''))" for k
    by (cases k) (simp_all add: merge_defs exampleExtracted_def)
  then show ?thesis
    using newLayer_field_order
      [of exampleExtracted "[(Timing, Some (KeywordValue ''ease'')), (Property, None)]"]
    by simp
qed

subsection \<open>The error path\<close>

text \<open>
  C2. When the parser answers \<open>invalid\<close>, on the buffer's text in \<open>handleComplete\<close> or
  on the serialized text in \<open>handlePropertyUpdate\<close>, the state after the handler is the
  state before it with the buffer set to \<open>Invalid\<close> of that same text: the log of
  upstream calls is as it was, so \<open>onEditLayer\<close> was not called.
\<close>

theorem invalid_parse_only_marks_buffer:
  "(intermediateValue s = Some iv \<and> parseTransition env (valueOf iv) = InvalidValue e \<longrightarrow>
      handleComplete env p options s = s\<lparr>intermediateValue := Some (Invalid (valueOf iv))\<rparr>) \<and>
   (parseTransition env (toValue env (newLayer (extractTransitionProperties env (layer p)) params))
      = InvalidValue e' \<longrightarrow>
      handlePropertyUpdate env p params given s =
        s\<lparr>intermediateValue :=
            Some (Invalid (toValue env (newLayer (extractTransitionProperties env (layer p)) params)))\<rparr>)"
  by (simp add: handleComplete_def handlePropertyUpdate_def Let_def)

theorem invalid_parse_only_marks_buffer_witness:
  "parseTransition exampleEnv ''not a transition'' = InvalidValue ''not a transition'' \<and>
   handleComplete exampleEnv exampleProps \<lparr>isEphemeral = True\<rparr>
     \<lparr>intermediateValue = Some (Intermediate ''not a transition''), calls = []\<rparr> =
     \<lparr>intermediateValue = Some (Invalid ''not a transition''), calls = []\<rparr> \<and>
   parseTransition exampleEnv
     (toValue exampleEnv (newLayer (extractTransitionProperties exampleEnv (layer exampleProps))
        [(Property, None)])) = InvalidValue ''200ms'' \<and>
   handlePropertyUpdate exampleEnv exampleProps [(Property, None)] None (initialState exampleProps) =
     \<lparr>intermediateValue = Some (Invalid ''200ms''), calls = []\<rparr>"
proof -
  have h1: "parseTransition exampleEnv ''not a transition'' = InvalidValue ''not a transition''"
    by (simp add: example_defs)
  have h2: "parseTransition exampleEnv
     (toValue exampleEnv (newLayer (extractTransitionProperties exampleEnv (layer exampleProps))
        [(Property, None)])) = InvalidValue ''200ms''"
    by (simp add: example_defs merge_defs)
  have t: "toValue exampleEnv (newLayer (extractTransitionProperties exampleEnv (layer exampleProps))
        [(Property, None)]) = ''200ms''"
    by (simp add: example_defs merge_defs)
  show ?thesis
    using h1 h2 t
      invalid_parse_only_marks_buffer
        [where s = "\<lparr>intermediateValue = Some (Intermediate ''not a transition''), calls = []\<rparr>"
           and iv = "Intermediate ''not a transition''" and env = exampleEnv
           and e = "''not a transition''" and p = exampleProps
           and options = "\<lparr>isEphemeral = True\<rparr>" and params = "[(Property, None)]"
           and e' = "''200ms''" and given = None]
      invalid_parse_only_marks_buffer
        [where s = "initialState exampleProps"
           and iv = "Intermediate ''opacity 200ms''" and env = exampleEnv
           and e = "''none''" and p = exampleProps
           and options = "\<lparr>isEphemeral = True\<rparr>" and params = "[(Property, None)]"
           and e' = "''200ms''" and given = None]
    by (simp add: initialState_def)
qed

subsection \<open>Commit requests\<close>

text \<open>
  C3. \<open>handleComplete\<close> does nothing when the buffer is unset. Otherwise, when the
  buffer's text parses, it calls \<open>onEditLayer\<close> once with the index, the parsed layers
  and the options it was given, and leaves the buffer as it was.
\<close>

theorem handleComplete_commits_and_keeps_buffer:
  "(intermediateValue s = None \<longrightarrow> handleComplete env p options s = s) \<and>
   (intermediateValue s = Some iv \<and> parseTransition env (valueOf iv) = LayersValue layers \<longrightarrow>
      handleComplete env p options s = s\<lparr>calls := calls s @ [OnEditLayer (index p) layers options]\<rparr> \<and>
      intermediateValue (handleComplete env p options s) = intermediateValue s)"
  by (simp add: handleComplete_def)

theorem handleComplete_commits_and_keeps_buffer_witness:
  "handleComplete exampleEnv exampleProps \<lparr>isEphemeral = True\<rparr>
     \<lparr>intermediateValue = None, calls = []\<rparr> = \<lparr>intermediateValue = None, calls = []\<rparr> \<and>
   parseTransition exampleEnv ''opacity 200ms'' =
     LayersValue [Tuple [KeywordValue ''opacity'', UnitValue 200 ''ms'']] \<and>
   handleComplete exampleEnv exampleProps \<lparr>isEphemeral = True\<rparr> (initialState exampleProps) =
     \<lparr>intermediateValue = Some (Intermediate ''opacity 200ms''),
      calls = [OnEditLayer 2 [Tuple [KeywordValue ''opacity'', UnitValue 200 ''ms'']]
                 \<lparr>isEphemeral = True\<rparr>]\<rparr>"
proof -
  have h: "parseTransition exampleEnv ''opacity 200ms'' =
     LayersValue [Tuple [KeywordValue ''opacity'', UnitValue 200 ''ms'']]"
    by (simp add: example_defs)
  show ?thesis
    using h
      handleComplete_commits_and_keeps_buffer
        [where s = "\<lparr>intermediateValue = None, calls = []\<rparr>" and env = exampleEnv
           and p = exampleProps and options = "\<lparr>isEphemeral = True\<rparr>"]
      handleComplete_commits_and_keeps_buffer
        [where s = "initialState exampleProps" and iv = "Intermediate ''opacity 200ms''"
           and env = exampleEnv and p = exampleProps and options = "\<lparr>isEphemeral = True\<rparr>"
           and layers = "[Tuple [KeywordValue ''opacity'', UnitValue 200 ''ms'']]"]
    by (simp add: initialState_def exampleProps_def)
qed

text \<open>
  C6. On a buffer whose text parses, blur and the Enter key both commit the same layers
  for the same index and leave the buffer alone; the calls differ in the flag only,
  \<open>isEphemeral\<close> being true for blur and false for Enter, and \<open>handleComplete\<close> hands
  on whatever options it is given.
\<close>

theorem commit_request_passes_isEphemeral_through:
  "intermediateValue s = Some iv \<Longrightarrow> parseTransition env (valueOf iv) = LayersValue layers \<Longrightarrow>
   onBlur env p s = s\<lparr>calls := calls s @ [OnEditLayer (index p) layers \<lparr>isEphemeral = True\<rparr>]\<rparr> \<and>
   (key event = ''Enter'' \<longrightarrow>
      snd (onKeyDown env p event s) =
        s\<lparr>calls := calls s @ [OnEditLayer (index p) layers \<lparr>isEphemeral = False\<rparr>]\<rparr>) \<and>
   handleComplete env p options s = s\<lparr>calls := calls s @ [OnEditLayer (index p) layers options]\<rparr>"
  by (simp add: onBlur_def onKeyDown_def handleComplete_def Let_def)

theorem commit_request_passes_isEphemeral_through_witness:
  "onBlur exampleEnv exampleProps (initialState exampleProps) =
     \<lparr>intermediateValue = Some (Intermediate ''opacity 200ms''),
      calls = [OnEditLayer 2 [Tuple [KeywordValue ''opacity'', UnitValue 200 ''ms'']]
                 \<lparr>isEphemeral = True\<rparr>]\<rparr> \<and>
   snd (onKeyDown exampleEnv exampleProps enterKey (initialState exampleProps)) =
     \<lparr>intermediateValue = Some (Intermediate ''opacity 200ms''),
      calls = [OnEditLayer 2 [Tuple [KeywordValue ''opacity'', UnitValue 200 ''ms'']]
                 \<lparr>isEphemeral = False\<rparr>]\<rparr>"
proof -
  have b: "intermediateValue (initialState exampleProps) = Some (Intermediate ''opacity 200ms'')"
    by (simp add: initialState_def exampleProps_def)
  have h: "parseTransition exampleEnv (valueOf (Intermediate ''opacity 200ms'')) =
     LayersValue [Tuple [KeywordValue ''opacity'', UnitValue 200 ''ms'']]"
    by (simp add: example_defs)
  have k: "key enterKey = ''Enter''" by (simp add: enterKey_def)
  show ?thesis
    using k commit_request_passes_isEphemeral_through [OF b h, of exampleProps enterKey]
    by (simp add: initialState_def exampleProps_def)
qed

subsection \<open>Typing\<close>

lemma fold_handleChange_calls: "calls (fold handleChange texts s) = calls s"
  by (induction texts arbitrary: s) (simp_all add: handleChange_def)

lemma fold_handleChange_buffer:
  "texts \<noteq> [] \<Longrightarrow> intermediateValue (fold handleChange texts s) = Some (Intermediate (last texts))"
proof (induction texts arbitrary: s)
  case Nil
  then show ?case by simp
next
  case (Cons t texts)
  show ?case
  proof (cases "texts = []")
    case True
    then show ?thesis by (simp add: handleChange_def)
  next
    case False
    then show ?thesis using Cons.IH [of "handleChange t s"] by simp
  qed
qed

text \<open>
  C4. \<open>handleChange\<close> sets the buffer to \<open>Intermediate\<close> of the new text and does
  nothing else; it has no access to the parser. So after any sequence of text edits the
  log of upstream calls is unchanged, and after a non-empty one the buffer is
  \<open>Intermediate\<close> of the last text, never \<open>Invalid\<close>. (The states in between are the
  results of the prefixes of the sequence, which the statement covers as well.)
\<close>

theorem handleChange_never_validates:
  "handleChange v s = s\<lparr>intermediateValue := Some (Intermediate v)\<rparr> \<and>
   calls (fold handleChange texts s) = calls s \<and>
   (texts \<noteq> [] \<longrightarrow>
      intermediateValue (fold handleChange texts s) = Some (Intermediate (last texts)))"
  by (simp add: handleChange_def fold_handleChange_calls fold_handleChange_buffer)

theorem handleChange_never_validates_witness:
  "[''o'', ''op'', ''not a transition''] \<noteq> [] \<and>
   calls (fold handleChange [''o'', ''op'', ''not a transition''] (initialState exampleProps)) = [] \<and>
   intermediateValue (fold handleChange [''o'', ''op'', ''not a transition''] (initialState exampleProps))
     = Some (Intermediate ''not a transition'')"
  using handleChange_never_validates
    [of "''o''" "initialState exampleProps" "[''o'', ''op'', ''not a transition'']"]
  by (simp add: initialState_def del: fold.simps)

subsection \<open>Cancel\<close>

text \<open>
  C5. The Escape key, on a buffer that is set, makes one \<open>deleteTransitionLayer\<close> call
  for the index of this layer and unsets the buffer; on an unset buffer it changes
  neither the buffer nor the log of calls. Pressing Escape a second time therefore
  changes nothing.
\<close>

theorem escape_deletes_once_then_unsets:
  "key event = ''Escape'' \<Longrightarrow>
   (intermediateValue s \<noteq> None \<longrightarrow>
      snd (onKeyDown env p event s) =
        s\<lparr>intermediateValue := None,
          calls := calls s @ [DeleteTransitionLayer (index p) \<lparr>isEphemeral = True\<rparr>]\<rparr>) \<and>
   (intermediateValue s = None \<longrightarrow> snd (onKeyDown env p event s) = s) \<and>
   snd (onKeyDown env p event (snd (onKeyDown env p event s))) = snd (onKeyDown env p event s)"
  by (simp add: onKeyDown_def Let_def)

theorem escape_deletes_once_then_unsets_witness:
  "key escapeKey = ''Escape'' \<and> intermediateValue (initialState exampleProps) \<noteq> None \<and>
   snd (onKeyDown exampleEnv exampleProps escapeKey (initialState exampleProps)) =
     \<lparr>intermediateValue = None, calls = [DeleteTransitionLayer 2 \<lparr>isEphemeral = True\<rparr>]\<rparr> \<and>
   snd (onKeyDown exampleEnv exampleProps escapeKey \<lparr>intermediateValue = None, calls = []\<rparr>) =
     \<lparr>intermediateValue = None, calls = []\<rparr>"
proof -
  have k: "key escapeKey = ''Escape''" by (simp add: escapeKey_def)
  show ?thesis
    using k
      escape_deletes_once_then_unsets [OF k, of "initialState exampleProps" exampleEnv exampleProps]
      escape_deletes_once_then_unsets
        [OF k, of "\<lparr>intermediateValue = None, calls = []\<rparr>" exampleEnv exampleProps]
    by (simp add: initialState_def exampleProps_def)
qed

lemma step_deletions:
  "list_all ephemeralIfDeletion (calls s) \<Longrightarrow> list_all ephemeralIfDeletion (calls (step env pe s))"
proof (cases pe)
  case (Pair p ev)
  assume inv: "list_all ephemeralIfDeletion (calls s)"
  show ?thesis
  proof (cases ev)
    case (TextEdit v)
    then show ?thesis using inv Pair by (simp add: handleChange_def)
  next
    case Blur
    then show ?thesis using inv Pair
      by (simp add: onBlur_def handleComplete_def split: option.splits ParsedTransition.splits)
  next
    case (KeyDown event)
    then show ?thesis using inv Pair
      by (simp add: onKeyDown_def Let_def handleComplete_def
          split: option.splits ParsedTransition.splits)
  next
    case (FieldEdit params options)
    then show ?thesis using inv Pair
      by (simp add: handlePropertyUpdate_def Let_def split: ParsedTransition.splits)
  qed
qed

lemma run_deletions:
  "list_all ephemeralIfDeletion (calls s) \<Longrightarrow> list_all ephemeralIfDeletion (calls (run env events s))"
  unfolding run_def by (induction events arbitrary: s) (simp_all add: step_deletions)

text \<open>
  C10. The only deletion a key event issues is that of Escape on a set buffer, and it
  carries \<open>isEphemeral: true\<close>. Along any run of the editor from its initial state,
  every \<open>deleteTransitionLayer\<close> call in the log is an ephemeral one.
\<close>

theorem deletion_is_always_ephemeral:
  "filter isDeletion (calls (snd (onKeyDown env p event s))) =
     filter isDeletion (calls s) @
       (if key event = ''Escape'' \<and> intermediateValue s \<noteq> None
        then [DeleteTransitionLayer (index p) \<lparr>isEphemeral = True\<rparr>] else []) \<and>
   list_all ephemeralIfDeletion (calls (run env events (initialState p')))"
proof -
  have "list_all ephemeralIfDeletion (calls (initialState p'))"
    by (simp add: initialState_def)
  then have "list_all ephemeralIfDeletion (calls (run env events (initialState p')))"
    by (rule run_deletions)
  moreover have "filter isDeletion (calls (snd (onKeyDown env p event s))) =
     filter isDeletion (calls s) @
       (if key event = ''Escape'' \<and> intermediateValue s \<noteq> None
        then [DeleteTransitionLayer (index p) \<lparr>isEphemeral = True\<rparr>] else [])"
    by (simp add: onKeyDown_def Let_def handleComplete_def
        split: option.splits ParsedTransition.splits)
  ultimately show ?thesis by simp
qed

theorem deletion_is_always_ephemeral_witness:
  "filter isDeletion
     (calls (snd (onKeyDown exampleEnv exampleProps escapeKey (initialState exampleProps)))) =
     [DeleteTransitionLayer 2 \<lparr>isEphemeral = True\<rparr>] \<and>
   list_all ephemeralIfDeletion
     (calls (run exampleEnv [(exampleProps, Blur), (exampleProps, KeyDown escapeKey)]
        (initialState exampleProps)))"
  using deletion_is_always_ephemeral
    [of exampleEnv exampleProps escapeKey "initialState exampleProps"
        "[(exampleProps, Blur), (exampleProps, KeyDown escapeKey)]" exampleProps]
  by (simp add: initialState_def exampleProps_def escapeKey_def)

subsection \<open>What the text area shows\<close>

text \<open>
  C8. In every state, the text area shows the buffer's text when the buffer is
  \<open>Intermediate\<close> or \<open>Invalid\<close> and the empty string when it is unset, and it has the
  error colour exactly when the buffer is \<open>Invalid\<close>. A commit request never changes
  the text shown: a text that was typed and then failed to parse is still shown as typed.
\<close>

theorem text_area_shows_buffer:
  "textAreaValue s =
     (case intermediateValue s of None \<Rightarrow> [] | Some (Intermediate t) \<Rightarrow> t | Some (Invalid t) \<Rightarrow> t) \<and>
   textAreaColor s = (if (\<exists>t. intermediateValue s = Some (Invalid t)) then Some ''error'' else None) \<and>
   textAreaValue (handleComplete env p options s) = textAreaValue s \<and>
   textAreaValue (handleComplete env p options (handleChange v s)) = v"
  by (auto simp: textAreaValue_def textAreaColor_def handleComplete_def handleChange_def
      split: option.splits BufferValue.splits ParsedTransition.splits)

theorem text_area_shows_buffer_witness:
  "textAreaValue (handleComplete exampleEnv exampleProps \<lparr>isEphemeral = True\<rparr>
      (handleChange ''not a transition'' (initialState exampleProps))) = ''not a transition'' \<and>
   textAreaColor (handleComplete exampleEnv exampleProps \<lparr>isEphemeral = True\<rparr>
      (handleChange ''not a transition'' (initialState exampleProps))) = Some ''error'' \<and>
   textAreaColor (initialState exampleProps) = None"
proof -
  have i: "intermediateValue (handleComplete exampleEnv exampleProps \<lparr>isEphemeral = True\<rparr>
      (handleChange ''not a transition'' (initialState exampleProps))) =
      Some (Invalid ''not a transition'')"
    by (simp add: handleComplete_def handleChange_def example_defs)
  have j: "intermediateValue (initialState exampleProps) = Some (Intermediate ''opacity 200ms'')"
    by (simp add: initialState_def exampleProps_def)
  show ?thesis
    using i j
      text_area_shows_buffer
        [of "handleComplete exampleEnv exampleProps \<lparr>isEphemeral = True\<rparr>
              (handleChange ''not a transition'' (initialState exampleProps))"
            exampleEnv exampleProps "\<lparr>isEphemeral = True\<rparr>" "''x''"]
      text_area_shows_buffer
        [of "initialState exampleProps" exampleEnv exampleProps "\<lparr>isEphemeral = True\<rparr>" "''x''"]
    by simp
qed

subsection \<open>The default options of a field edit\<close>

text \<open>
  C9. A field edit called without options behaves as one called with
  \<open>isEphemeral: false\<close>: so do the two \<open>deleteProperty\<close> callbacks, and the commit such
  an edit makes, when its text parses, carries \<open>isEphemeral: false\<close>.
\<close>

theorem field_edit_defaults_to_final_commit:
  "handlePropertyUpdate env p params None s =
     handlePropertyUpdate env p params (Some \<lparr>isEphemeral = False\<rparr>) s \<and>
   durationDeleteProperty env p s =
     handlePropertyUpdate env p
       [(Duration, getField (extractTransitionProperties env (layer p)) Duration)]
       (Some \<lparr>isEphemeral = False\<rparr>) s \<and>
   delayDeleteProperty env p s =
     handlePropertyUpdate env p
       [(Delay, getField (extractTransitionProperties env (layer p)) Delay)]
       (Some \<lparr>isEphemeral = False\<rparr>) s \<and>
   calls (handlePropertyUpdate env p params None s) =
     calls s @
       (case parseTransition env
               (toValue env (newLayer (extractTransitionProperties env (layer p)) params)) of
          LayersValue layers \<Rightarrow> [OnEditLayer (index p) layers \<lparr>isEphemeral = False\<rparr>]
        | InvalidValue e \<Rightarrow> [])"
  by (simp add: handlePropertyUpdate_def durationDeleteProperty_def delayDeleteProperty_def
      Let_def split: ParsedTransition.splits)

theorem field_edit_defaults_to_final_commit_witness:
  "calls (durationDeleteProperty exampleEnv exampleProps (initialState exampleProps)) =
     [OnEditLayer 2 [Tuple [KeywordValue ''opacity'', UnitValue 200 ''ms'']] \<lparr>isEphemeral = False\<rparr>]"
proof -
  have "calls (handlePropertyUpdate exampleEnv exampleProps
          [(Duration, getField (extractTransitionProperties exampleEnv (layer exampleProps)) Duration)]
          (Some \<lparr>isEphemeral = False\<rparr>) (initialState exampleProps)) =
     [OnEditLayer 2 [Tuple [KeywordValue ''opacity'', UnitValue 200 ''ms'']] \<lparr>isEphemeral = False\<rparr>]"
    by (simp add: handlePropertyUpdate_def example_defs merge_defs)
  then show ?thesis
    using field_edit_defaults_to_final_commit
      [of exampleEnv exampleProps "[]" "initialState exampleProps"]
    by simp
qed

end
